theory Spec2Isabelle
  imports Main "HOL-Library.AList" "HOL-Library.Word"
begin

section \<open>JavaScript values used by app.js\<close>

text \<open>
  A string-valued JavaScript slot that may hold \<^verbatim>\<open>null\<close> or \<^verbatim>\<open>undefined\<close> is a
  \<open>string option\<close>; a numeric one is an \<open>int option\<close>. Times are milliseconds as returned
  by \<^verbatim>\<open>Date.now()\<close>, lifetimes are whole seconds as a provider sends them.
  The two functions below are JavaScript's truthiness on these slots: \<^verbatim>\<open>null\<close>, the empty
  string and \<^verbatim>\<open>0\<close> are falsy.
\<close>

definition truthy_str :: "string option \<Rightarrow> bool" where
  "truthy_str v = (case v of None \<Rightarrow> False | Some s \<Rightarrow> s \<noteq> [])"

definition truthy_num :: "int option \<Rightarrow> bool" where
  "truthy_num v = (case v of None \<Rightarrow> False | Some n \<Rightarrow> n \<noteq> 0)"

section \<open>The token storage object (app.js, lines 103-135)\<close>

record token_storage =
  accessToken :: "string option"
  refreshToken :: "string option"
  expiresAt :: "int option"

text \<open>The \<^verbatim>\<open>token\<close> object of a simple-oauth2 token response.\<close>

record token_response =
  access_token :: "string option"
  refresh_token :: "string option"
  expires_in :: "int option"

text \<open>The object literal: all three fields start as \<^verbatim>\<open>null\<close>.\<close>

definition initial_tokenStorage :: token_storage where
  "initial_tokenStorage = \<lparr>accessToken = None, refreshToken = None, expiresAt = None\<rparr>"

text \<open>
  \<^verbatim>\<open>setTokens(tokenResponse)\<close>; \<open>now\<close> is the reading of \<^verbatim>\<open>Date.now()\<close> it takes.
  \<^verbatim>\<open>expires_in || 3600\<close> picks 3600 for every falsy lifetime.
\<close>

definition setTokens :: "token_response \<Rightarrow> int \<Rightarrow> token_storage \<Rightarrow> token_storage" where
  "setTokens tokenResponse now this =
     (let expiresIn = (case expires_in tokenResponse of
                         None \<Rightarrow> 3600
                       | Some n \<Rightarrow> if n \<noteq> 0 then n else 3600)
      in this\<lparr>accessToken := access_token tokenResponse,
              refreshToken := refresh_token tokenResponse,
              expiresAt := Some (now + (expiresIn - 60) * 1000)\<rparr>)"

text \<open>
  \<^verbatim>\<open>isTokenValid()\<close>: the conjunction \<^verbatim>\<open>accessToken && expiresAt && Date.now() < expiresAt\<close>,
  read as a truth value (every caller uses it as a condition).
\<close>

definition isTokenValid :: "token_storage \<Rightarrow> int \<Rightarrow> bool" where
  "isTokenValid this now =
     (truthy_str (accessToken this) \<and> truthy_num (expiresAt this) \<and>
      (case expiresAt this of None \<Rightarrow> False | Some e \<Rightarrow> now < e))"

definition getAccessToken :: "token_storage \<Rightarrow> int \<Rightarrow> string option" where
  "getAccessToken this now = (if isTokenValid this now then accessToken this else None)"

definition clearTokens :: "token_storage \<Rightarrow> token_storage" where
  "clearTokens this = this\<lparr>accessToken := None, refreshToken := None, expiresAt := None\<rparr>"

section \<open>The outside world and the server's state\<close>

text \<open>
  What a request handler cannot decide itself is an \<open>env\<close>, fixed for one run of a
  handler: the answer of the provider's token endpoint (\<^verbatim>\<open>oauthClient.getToken\<close>, which
  rejects with an error message or resolves with a token response), the answer of the
  messaging API (\<^verbatim>\<open>axios.request\<close>), the readings of \<^verbatim>\<open>Date.now()\<close> in the order they are
  taken, the bytes of \<^verbatim>\<open>crypto.randomBytes(15)\<close> and the optional environment variables.
  No handler calls the token endpoint, the messaging API or \<^verbatim>\<open>randomBytes\<close> more than once,
  so one answer per request suffices; different runs take different environments.
  A handler runs to its reply in one piece: what other requests do while it awaits the
  network is outside this model.
\<close>

datatype grant =
    RefreshGrant string    \<comment> \<open>\<^verbatim>\<open>{grant_type: 'refresh_token', refresh_token}\<close>\<close>
  | CodeGrant string       \<comment> \<open>\<^verbatim>\<open>{code, redirect_uri, scope}\<close>\<close>

record sms_request =
  bearer :: "string option"
  ownerPhoneNumber :: string
  contactPhoneNumbers :: "string list"
  body :: string

datatype axios_result =
    Fulfilled string                  \<comment> \<open>\<^verbatim>\<open>response.data\<close>\<close>
  | Rejected "nat option" string      \<comment> \<open>\<^verbatim>\<open>error.response?.status\<close>, and the details\<close>

datatype net_call = GetToken grant | SendSms sms_request

record env =
  getToken :: "grant \<Rightarrow> string + token_response"
  axios_request :: "sms_request \<Rightarrow> axios_result"
  clock :: "nat \<Rightarrow> int"
  randomBytes15 :: "8 word list"
  OWNER_PHONE_NUMBER :: "string option"
  CONTACT_PHONE_NUMBER :: "string option"
  SMS_MESSAGE :: "string option"

text \<open>
  The process-wide state: the two module variables, the index of the next reading of
  the clock, and the network calls made so far, oldest first. \<^verbatim>\<open>isTokenValid()\<close> is given
  a reading whether or not its conjunction gets as far as \<^verbatim>\<open>Date.now()\<close>; the clock being
  arbitrary, a reading that is not looked at costs nothing.
\<close>

record state =
  tokenStorage :: token_storage
  pendingStates :: "(string \<times> int) list"
  reads :: nat
  net :: "net_call list"

definition Date_now :: "env \<Rightarrow> state \<Rightarrow> int \<times> state" where
  "Date_now E \<sigma> = (clock E (reads \<sigma>), \<sigma>\<lparr>reads := Suc (reads \<sigma>)\<rparr>)"

definition call :: "net_call \<Rightarrow> state \<Rightarrow> state" where
  "call c \<sigma> = \<sigma>\<lparr>net := net \<sigma> @ [c]\<rparr>"

section \<open>Refreshing and serving the access token (app.js, lines 141-176)\<close>

text \<open>
  \<^verbatim>\<open>refreshAccessToken()\<close>. The result \<open>None\<close> is the \<^verbatim>\<open>null\<close> it returns on both failures.
\<close>

definition refreshAccessToken :: "env \<Rightarrow> state \<Rightarrow> string option \<times> state" where
  "refreshAccessToken E \<sigma> =
     (case refreshToken (tokenStorage \<sigma>) of
        None \<Rightarrow> (None, \<sigma>)
      | Some rt \<Rightarrow>
          if rt = [] then (None, \<sigma>)
          else
            (let \<sigma>1 = call (GetToken (RefreshGrant rt)) \<sigma> in
             case getToken E (RefreshGrant rt) of
               Inl error \<Rightarrow> (None, \<sigma>1\<lparr>tokenStorage := clearTokens (tokenStorage \<sigma>1)\<rparr>)
             | Inr tokenResponse \<Rightarrow>
                 (let (t1, \<sigma>2) = Date_now E \<sigma>1;
                      \<sigma>3 = \<sigma>2\<lparr>tokenStorage := setTokens tokenResponse t1 (tokenStorage \<sigma>2)\<rparr>;
                      (t2, \<sigma>4) = Date_now E \<sigma>3
                  in (getAccessToken (tokenStorage \<sigma>4) t2, \<sigma>4))))"

text \<open>
  \<^verbatim>\<open>getValidAccessToken()\<close>: \<^verbatim>\<open>isTokenValid()\<close> and \<^verbatim>\<open>getAccessToken()\<close> each read the
  clock.
\<close>

definition getValidAccessToken :: "env \<Rightarrow> state \<Rightarrow> string option \<times> state" where
  "getValidAccessToken E \<sigma> =
     (let (t0, \<sigma>1) = Date_now E \<sigma> in
      if isTokenValid (tokenStorage \<sigma>1) t0
      then (let (t1, \<sigma>2) = Date_now E \<sigma>1 in (getAccessToken (tokenStorage \<sigma>2) t1, \<sigma>2))
      else refreshAccessToken E \<sigma>1)"

section \<open>State tokens (app.js, lines 100, 183-199, 237-244, 443-453)\<close>

text \<open>
  \<^verbatim>\<open>pendingStates\<close> is a JavaScript \<^verbatim>\<open>Map\<close> from state token to \<^verbatim>\<open>{timestamp}\<close>: a list of
  entries in insertion order, one per key. \<^verbatim>\<open>set\<close> replaces the value of a present key in
  place and appends an absent one; \<^verbatim>\<open>delete\<close> drops the key's entry.
\<close>

definition Map_has :: "(string \<times> int) list \<Rightarrow> string \<Rightarrow> bool" where
  "Map_has m k = (k \<in> set (map fst m))"

definition Map_set :: "string \<Rightarrow> int \<Rightarrow> (string \<times> int) list \<Rightarrow> (string \<times> int) list" where
  "Map_set k v m = AList.update k v m"

definition Map_delete :: "string \<Rightarrow> (string \<times> int) list \<Rightarrow> (string \<times> int) list" where
  "Map_delete k m = AList.delete k m"

text \<open>\<^verbatim>\<open>Buffer.toString('hex')\<close>: two lower-case hexadecimal digits per byte.\<close>

definition hex_digit :: "nat \<Rightarrow> char" where
  "hex_digit n = ''0123456789abcdef'' ! (n mod 16)"

definition toString_hex :: "8 word list \<Rightarrow> string" where
  "toString_hex bs = concat (map (\<lambda>b. [hex_digit (unat b div 16), hex_digit (unat b mod 16)]) bs)"

text \<open>The authorization URL, which the provider's client builds around the state token.\<close>

datatype auth_url = AuthorizeURL string

definition generateAuthUrl :: "env \<Rightarrow> state \<Rightarrow> (auth_url \<times> string) \<times> state" where
  "generateAuthUrl E \<sigma> =
     (let state = toString_hex (randomBytes15 E);
          (now, \<sigma>1) = Date_now E \<sigma>;
          \<sigma>2 = \<sigma>1\<lparr>pendingStates := Map_set state now (pendingStates \<sigma>1)\<rparr>
      in ((AuthorizeURL state, state), \<sigma>2))"

text \<open>
  The state check at the head of the OAuth callback (lines 237-244): reject a missing,
  empty or unknown state, otherwise delete its entry.
\<close>

datatype registry_error = InvalidState

definition validateAndConsume ::
  "string option \<Rightarrow> (string \<times> int) list \<Rightarrow> registry_error + (string \<times> int) list" where
  "validateAndConsume receivedState pending =
     (case receivedState of
        None \<Rightarrow> Inl InvalidState
      | Some st \<Rightarrow>
          if st = [] \<or> \<not> Map_has pending st then Inl InvalidState
          else Inr (Map_delete st pending))"

text \<open>
  The periodic cleanup (lines 443-453). The loop visits the entries of the map and deletes
  from the same map; deleting the entry being visited does not disturb the visit of the
  others, so the entries visited are those present when the loop starts.
\<close>

fun sweep_loop :: "int \<Rightarrow> (string \<times> int) list \<Rightarrow> (string \<times> int) list \<Rightarrow> (string \<times> int) list" where
  "sweep_loop now [] m = m"
| "sweep_loop now ((state, timestamp) # entries) m =
     sweep_loop now entries
       (if now - timestamp > 10 * 60 * 1000 then Map_delete state m else m)"

definition sweep :: "env \<Rightarrow> state \<Rightarrow> state" where
  "sweep E \<sigma> =
     (let (now, \<sigma>1) = Date_now E \<sigma>
      in \<sigma>1\<lparr>pendingStates := sweep_loop now (pendingStates \<sigma>1) (pendingStates \<sigma>1)\<rparr>)"

section \<open>The request handlers (app.js, lines 231-410)\<close>

text \<open>A handler's reply: the HTTP status and the JSON body by its shape.\<close>

datatype json_body =
    ErrorOnly string                 \<comment> \<open>\<^verbatim>\<open>{error}\<close>\<close>
  | ErrorAuthUrl string auth_url     \<comment> \<open>\<^verbatim>\<open>{error, authUrl}\<close>\<close>
  | ErrorDetails string string       \<comment> \<open>\<^verbatim>\<open>{error, details}\<close>\<close>
  | SmsSent string string            \<comment> \<open>\<^verbatim>\<open>{success: true, message, data}\<close>, with the id of the data\<close>
  | StatusBody bool "int option" "auth_url option"
                                     \<comment> \<open>\<^verbatim>\<open>{authenticated, tokenExpiry, authUrl}\<close>\<close>
  | MessageAuthUrl string auth_url   \<comment> \<open>\<^verbatim>\<open>{message, authUrl}\<close>\<close>
  | UrlAndState auth_url string      \<comment> \<open>\<^verbatim>\<open>{authUrl, state}\<close>\<close>

datatype reply = Reply nat json_body

text \<open>\<^verbatim>\<open>process.env.X || fallback\<close>.\<close>

definition or_default :: "string option \<Rightarrow> string \<Rightarrow> string" where
  "or_default v d = (case v of None \<Rightarrow> d | Some s \<Rightarrow> if s = [] then d else s)"

record callback_query =
  q_state :: "string option"
  q_code :: "string option"

text \<open>
  \<^verbatim>\<open>GET /login/oauth2/code/goto\<close>. The message is sent with the access token of the
  response just stored; its failure is answered with 500 whatever the status.
\<close>

definition oauth_callback :: "env \<Rightarrow> callback_query \<Rightarrow> state \<Rightarrow> reply \<times> state" where
  "oauth_callback E query \<sigma> =
     (case validateAndConsume (q_state query) (pendingStates \<sigma>) of
        Inl InvalidState \<Rightarrow> (Reply 403 (ErrorOnly ''Invalid state parameter''), \<sigma>)
      | Inr pending \<Rightarrow>
          (let \<sigma>1 = \<sigma>\<lparr>pendingStates := pending\<rparr> in
           case q_code query of
             None \<Rightarrow> (Reply 400 (ErrorOnly ''Missing authorization code''), \<sigma>1)
           | Some authorizationCode \<Rightarrow>
               if authorizationCode = []
               then (Reply 400 (ErrorOnly ''Missing authorization code''), \<sigma>1)
               else
                 (let \<sigma>2 = call (GetToken (CodeGrant authorizationCode)) \<sigma>1 in
                  case getToken E (CodeGrant authorizationCode) of
                    Inl error \<Rightarrow> (Reply 500 (ErrorOnly ''Failed to obtain access token''), \<sigma>2)
                  | Inr tokenResponse \<Rightarrow>
                      (let (now, \<sigma>3) = Date_now E \<sigma>2;
                           \<sigma>4 = \<sigma>3\<lparr>tokenStorage := setTokens tokenResponse now (tokenStorage \<sigma>3)\<rparr>;
                           options = \<lparr>bearer = access_token tokenResponse,
                                      ownerPhoneNumber =
                                        or_default (OWNER_PHONE_NUMBER E) ''+15625791776'',
                                      contactPhoneNumbers =
                                        [or_default (CONTACT_PHONE_NUMBER E) ''+17143059601''],
                                      body = or_default (SMS_MESSAGE E)
                                        ''Congratulations! You have successfully completed the tutorial!''\<rparr>;
                           \<sigma>5 = call (SendSms options) \<sigma>4
                       in case axios_request E options of
                            Fulfilled data \<Rightarrow>
                              (Reply 200 (SmsSent ''SMS sent successfully'' data), \<sigma>5)
                          | Rejected status details \<Rightarrow>
                              (Reply 500 (ErrorDetails ''Failed to send SMS'' details), \<sigma>5)))))"

text \<open>The test \<^verbatim>\<open>/^\+[1-9]\d{1,14}$/\<close> of \<^verbatim>\<open>POST /api/send-sms\<close>.\<close>

definition phoneRegex_test :: "string \<Rightarrow> bool" where
  "phoneRegex_test s =
     (case s of
        c0 # c1 # rest \<Rightarrow>
          c0 = CHR ''+'' \<and> c1 \<in> set ''123456789'' \<and>
          1 \<le> length rest \<and> length rest \<le> 14 \<and> list_all (\<lambda>c. c \<in> set ''0123456789'') rest
      | _ \<Rightarrow> False)"

record sms_body =
  b_from :: "string option"
  b_to :: "string option"
  b_message :: "string option"

text \<open>
  \<^verbatim>\<open>POST /api/send-sms\<close>. Only a rejection of the messaging call reaches the \<^verbatim>\<open>catch\<close>
  block, where status 401 clears the token storage.
\<close>

definition send_sms :: "env \<Rightarrow> sms_body \<Rightarrow> state \<Rightarrow> reply \<times> state" where
  "send_sms E req \<sigma> =
     (if \<not> truthy_str (b_from req) \<or> \<not> truthy_str (b_to req) \<or> \<not> truthy_str (b_message req)
      then (Reply 400 (ErrorOnly ''Missing required fields: from, to, message''), \<sigma>)
      else
        (let from = the (b_from req); to = the (b_to req); message = the (b_message req) in
         if \<not> phoneRegex_test from \<or> \<not> phoneRegex_test to
         then (Reply 400
                 (ErrorOnly ''Phone numbers must be in E.164 format (e.g., +15551234567)''), \<sigma>)
         else
           (let (accessToken, \<sigma>1) = getValidAccessToken E \<sigma> in
            if \<not> truthy_str accessToken
            then (let ((url, state), \<sigma>2) = generateAuthUrl E \<sigma>1
                  in (Reply 401
                        (ErrorAuthUrl
                           ''Authentication required. Please complete OAuth flow first.'' url),
                      \<sigma>2))
            else
              (let options = \<lparr>bearer = accessToken, ownerPhoneNumber = from,
                              contactPhoneNumbers = [to], body = message\<rparr>;
                   \<sigma>2 = call (SendSms options) \<sigma>1
               in case axios_request E options of
                    Fulfilled data \<Rightarrow> (Reply 200 (SmsSent ''SMS sent successfully'' data), \<sigma>2)
                  | Rejected status details \<Rightarrow>
                      if status = Some 401
                      then (let \<sigma>3 = \<sigma>2\<lparr>tokenStorage := clearTokens (tokenStorage \<sigma>2)\<rparr>;
                                ((url, state), \<sigma>4) = generateAuthUrl E \<sigma>3
                            in (Reply 401
                                  (ErrorAuthUrl
                                     ''Authentication expired. Please complete OAuth flow again.''
                                     url),
                                \<sigma>4))
                      else (Reply 500 (ErrorDetails ''Failed to send SMS'' details), \<sigma>2)))))"

text \<open>
  \<^verbatim>\<open>GET /api/auth-status\<close>, \<^verbatim>\<open>POST /api/re-authenticate\<close> and \<^verbatim>\<open>GET /auth/new\<close>
  (lines 416-436 and 459-465). \<^verbatim>\<open>res.json\<close> answers with status 200; the expiry is
  reported as the instant stored, when one is.
\<close>

definition auth_status :: "env \<Rightarrow> state \<Rightarrow> reply \<times> state" where
  "auth_status E \<sigma> =
     (let (now, \<sigma>1) = Date_now E \<sigma>;
          isAuthenticated = isTokenValid (tokenStorage \<sigma>1) now;
          tokenExpiry = (if truthy_num (expiresAt (tokenStorage \<sigma>1))
                         then expiresAt (tokenStorage \<sigma>1) else None)
      in if isAuthenticated then (Reply 200 (StatusBody True tokenExpiry None), \<sigma>1)
         else (let ((url, state), \<sigma>2) = generateAuthUrl E \<sigma>1
               in (Reply 200 (StatusBody False tokenExpiry (Some url)), \<sigma>2)))"

definition re_authenticate :: "env \<Rightarrow> state \<Rightarrow> reply \<times> state" where
  "re_authenticate E \<sigma> =
     (let \<sigma>1 = \<sigma>\<lparr>tokenStorage := clearTokens (tokenStorage \<sigma>)\<rparr>;
          ((url, state), \<sigma>2) = generateAuthUrl E \<sigma>1
      in (Reply 200 (MessageAuthUrl ''Tokens cleared. Please complete OAuth flow.'' url), \<sigma>2))"

definition auth_new :: "env \<Rightarrow> state \<Rightarrow> reply \<times> state" where
  "auth_new E \<sigma> =
     (let ((url, state), \<sigma>1) = generateAuthUrl E \<sigma>
      in (Reply 200 (UrlAndState url state), \<sigma>1))"

section \<open>Runs of the server\<close>

text \<open>
  Everything that touches \<^verbatim>\<open>pendingStates\<close> after start-up: the five handlers above and
  the timer's cleanup, each in the environment of its run. An event issues the state
  \<open>st\<close> when the random bytes of its environment spell \<open>st\<close> (whether or not its run comes
  to call \<^verbatim>\<open>generateAuthUrl\<close>); it takes away the state \<open>st\<close> stored at time \<open>ts\<close> when it
  is a callback carrying \<open>st\<close>, or a cleanup that reads a clock more than ten minutes past
  \<open>ts\<close>. A state is undisturbed by a run of events when none of them issues it again or
  takes it away.
\<close>

datatype event =
    AuthNew env
  | AuthStatus env
  | ReAuthenticate env
  | SendSmsPost env sms_body
  | Callback env callback_query
  | Cleanup env

fun step :: "event \<Rightarrow> state \<Rightarrow> state" where
  "step (AuthNew E) \<sigma> = snd (auth_new E \<sigma>)"
| "step (AuthStatus E) \<sigma> = snd (auth_status E \<sigma>)"
| "step (ReAuthenticate E) \<sigma> = snd (re_authenticate E \<sigma>)"
| "step (SendSmsPost E req) \<sigma> = snd (send_sms E req \<sigma>)"
| "step (Callback E query) \<sigma> = snd (oauth_callback E query \<sigma>)"
| "step (Cleanup E) \<sigma> = sweep E \<sigma>"

fun issues :: "string \<Rightarrow> event \<Rightarrow> bool" where
  "issues st (AuthNew E) = (toString_hex (randomBytes15 E) = st)"
| "issues st (AuthStatus E) = (toString_hex (randomBytes15 E) = st)"
| "issues st (ReAuthenticate E) = (toString_hex (randomBytes15 E) = st)"
| "issues st (SendSmsPost E req) = (toString_hex (randomBytes15 E) = st)"
| "issues st (Callback E query) = False"
| "issues st (Cleanup E) = False"

fun takes_away :: "string \<Rightarrow> int \<Rightarrow> event \<Rightarrow> state \<Rightarrow> bool" where
  "takes_away st ts (Callback E query) \<sigma> = (q_state query = Some st)"
| "takes_away st ts (Cleanup E) \<sigma> = (clock E (reads \<sigma>) - ts > 10 * 60 * 1000)"
| "takes_away st ts ev \<sigma> = False"

fun undisturbed :: "string \<Rightarrow> int \<Rightarrow> event list \<Rightarrow> state \<Rightarrow> bool" where
  "undisturbed st ts [] \<sigma> = True"
| "undisturbed st ts (ev # evs) \<sigma> =
     (\<not> issues st ev \<and> \<not> takes_away st ts ev \<sigma> \<and> undisturbed st ts evs (step ev \<sigma>))"

section \<open>Concrete environments and states\<close>

text \<open>
  A provider that rejects every grant; one that grants a token for an hour and a
  messaging API that answers 401; one that grants a token for one minute. The clock
  advances by a millisecond per reading, or stands eleven minutes after the epoch.
\<close>

definition rejecting_env :: env where
  "rejecting_env =
     \<lparr>getToken = (\<lambda>g. Inl ''invalid_grant''), axios_request = (\<lambda>q. Fulfilled ''ok''),
      clock = (\<lambda>k. 5000000 + int k), randomBytes15 = replicate 15 0xAB,
      OWNER_PHONE_NUMBER = None, CONTACT_PHONE_NUMBER = None, SMS_MESSAGE = None\<rparr>"

definition granting_env :: env where
  "granting_env =
     \<lparr>getToken = (\<lambda>g. Inr \<lparr>access_token = Some ''N'', refresh_token = Some ''R2'',
                             expires_in = Some 3600\<rparr>),
      axios_request = (\<lambda>q. Rejected (Some 401) ''Unauthorized''),
      clock = (\<lambda>k. 5000000 + int k), randomBytes15 = [],
      OWNER_PHONE_NUMBER = None, CONTACT_PHONE_NUMBER = None, SMS_MESSAGE = None\<rparr>"

definition short_lived_env :: env where
  "short_lived_env =
     \<lparr>getToken = (\<lambda>g. Inr \<lparr>access_token = Some ''N'', refresh_token = Some ''R2'',
                             expires_in = Some 60\<rparr>),
      axios_request = (\<lambda>q. Fulfilled ''ok''),
      clock = (\<lambda>k. 5000000 + int k), randomBytes15 = [],
      OWNER_PHONE_NUMBER = None, CONTACT_PHONE_NUMBER = None, SMS_MESSAGE = None\<rparr>"

definition issuing_env :: env where
  "issuing_env =
     \<lparr>getToken = (\<lambda>g. Inl ''invalid_grant''), axios_request = (\<lambda>q. Fulfilled ''ok''),
      clock = (\<lambda>k. 5000000 + int k),
      randomBytes15 = [0x00, 0x1f, 0xa2, 0x33, 0x44, 0x55, 0x66, 0x77, 0x88, 0x99, 0xaa, 0xbb, 0xcc, 0xde, 0xff],
      OWNER_PHONE_NUMBER = None, CONTACT_PHONE_NUMBER = None, SMS_MESSAGE = None\<rparr>"

definition second_issuing_env :: env where
  "second_issuing_env =
     \<lparr>getToken = (\<lambda>g. Inl ''invalid_grant''), axios_request = (\<lambda>q. Fulfilled ''ok''),
      clock = (\<lambda>k. 5000000 + int k),
      randomBytes15 = [0x10, 0x21, 0x32, 0x43, 0x54, 0x65, 0x76, 0x87, 0x98, 0xa9, 0xba, 0xcb, 0xdc, 0xed, 0xfe],
      OWNER_PHONE_NUMBER = None, CONTACT_PHONE_NUMBER = None, SMS_MESSAGE = None\<rparr>"

definition sweeping_env :: env where
  "sweeping_env =
     \<lparr>getToken = (\<lambda>g. Inl ''invalid_grant''), axios_request = (\<lambda>q. Fulfilled ''ok''),
      clock = (\<lambda>k. 660000), randomBytes15 = [],
      OWNER_PHONE_NUMBER = None, CONTACT_PHONE_NUMBER = None, SMS_MESSAGE = None\<rparr>"

definition expired_state :: state where
  "expired_state =
     \<lparr>tokenStorage = \<lparr>accessToken = Some ''A'', refreshToken = Some ''R'', expiresAt = Some 4000000\<rparr>,
      pendingStates = [], reads = 0, net = []\<rparr>"

definition expiring_state :: state where
  "expiring_state =
     \<lparr>tokenStorage = \<lparr>accessToken = Some ''A'', refreshToken = Some ''R'', expiresAt = Some 5000001\<rparr>,
      pendingStates = [], reads = 0, net = []\<rparr>"

definition logged_out_state :: state where
  "logged_out_state =
     \<lparr>tokenStorage = initial_tokenStorage, pendingStates = [], reads = 0, net = []\<rparr>"

definition awaiting_callback :: state where
  "awaiting_callback =
     \<lparr>tokenStorage = initial_tokenStorage, pendingStates = [(''abc123'', 4000000)],
      reads = 0, net = []\<rparr>"

definition waiting_state :: state where
  "waiting_state =
     \<lparr>tokenStorage = initial_tokenStorage,
      pendingStates = [(''abc123'', 0), (''def456'', 60000), (''0a0b0c'', 600000)],
      reads = 0, net = []\<rparr>"

section \<open>The token store: expiry and validity\<close>

lemma expiresAt_setTokens:
  "expiresAt (setTokens r now s) =
     Some (now + ((case expires_in r of None \<Rightarrow> 3600 | Some n \<Rightarrow> if n = 0 then 3600 else n) - 60) * 1000)"
  by (simp add: setTokens_def Let_def split: option.splits)

lemma accessToken_setTokens: "accessToken (setTokens r now s) = access_token r"
  by (simp add: setTokens_def Let_def)

lemma refreshToken_setTokens: "refreshToken (setTokens r now s) = refresh_token r"
  by (simp add: setTokens_def Let_def)

lemma isTokenValid_setTokens:
  "isTokenValid (setTokens r now s) n \<longleftrightarrow>
     truthy_str (access_token r) \<and>
     now + ((case expires_in r of None \<Rightarrow> 3600 | Some n \<Rightarrow> if n = 0 then 3600 else n) - 60) * 1000 \<noteq> 0 \<and>
     n < now + ((case expires_in r of None \<Rightarrow> 3600 | Some n \<Rightarrow> if n = 0 then 3600 else n) - 60) * 1000"
  by (simp add: isTokenValid_def expiresAt_setTokens accessToken_setTokens truthy_num_def)

lemma clearTokens_fields:
  "accessToken (clearTokens s) = None"
  "refreshToken (clearTokens s) = None"
  "expiresAt (clearTokens s) = None"
  by (simp_all add: clearTokens_def)

lemma isTokenValid_clearTokens: "\<not> isTokenValid (clearTokens s) n"
  by (simp add: isTokenValid_def clearTokens_def truthy_str_def)

lemma clearTokens_eq:
  "clearTokens s = \<lparr>accessToken = None, refreshToken = None, expiresAt = None\<rparr>"
  by (simp add: clearTokens_def)

text \<open>
  C8. At every store state and clock reading, \<^verbatim>\<open>getAccessToken()\<close> returns \<^verbatim>\<open>null\<close> exactly
  when \<^verbatim>\<open>isTokenValid()\<close> is false, and when it is true it returns the stored access
  token, which is then a non-empty string.
\<close>

theorem getAccessToken_iff_valid:
  "(getAccessToken s now = None \<longleftrightarrow> \<not> isTokenValid s now) \<and>
   (isTokenValid s now \<longrightarrow>
      getAccessToken s now = accessToken s \<and> (\<exists>t. accessToken s = Some t \<and> t \<noteq> []))"
  by (auto simp: getAccessToken_def isTokenValid_def truthy_str_def split: option.splits)

theorem getAccessToken_iff_valid_witness:
  "isTokenValid \<lparr>accessToken = Some ''X'', refreshToken = Some ''Y'', expiresAt = Some 5000\<rparr> 4999 \<and>
   getAccessToken \<lparr>accessToken = Some ''X'', refreshToken = Some ''Y'', expiresAt = Some 5000\<rparr> 4999
     = Some ''X'' \<and>
   \<not> isTokenValid \<lparr>accessToken = Some ''X'', refreshToken = Some ''Y'', expiresAt = Some 5000\<rparr> 5000 \<and>
   getAccessToken \<lparr>accessToken = Some ''X'', refreshToken = Some ''Y'', expiresAt = Some 5000\<rparr> 5000
     = None"
  using getAccessToken_iff_valid
    [of "\<lparr>accessToken = Some ''X'', refreshToken = Some ''Y'', expiresAt = Some 5000\<rparr>" 4999]
    getAccessToken_iff_valid
    [of "\<lparr>accessToken = Some ''X'', refreshToken = Some ''Y'', expiresAt = Some 5000\<rparr>" 5000]
  by (simp add: isTokenValid_def truthy_str_def truthy_num_def)

text \<open>
  C3, amended. \<^verbatim>\<open>setTokens\<close> called at time \<open>T\<close> stores the expiry instant
  \<open>T + (expires_in - 60)\<close> seconds, where 3600 stands in for a lifetime that is absent or
  zero. Hence after a response with a non-empty access token and a lifetime of 3600
  seconds, \<^verbatim>\<open>isTokenValid()\<close> is true at every clock reading before \<open>T + 3540\<close> seconds and
  false from then on (the sum being non-zero, as it is for every \<open>T \<ge> 0\<close>).
\<close>

theorem setTokens_expiry_margin:
  "expiresAt (setTokens r T s) =
     Some (T + ((if expires_in r = None \<or> expires_in r = Some 0 then 3600 else the (expires_in r)) - 60) * 1000) \<and>
   (truthy_str (access_token r) \<and> expires_in r = Some 3600 \<and> T \<noteq> - 3540000 \<longrightarrow>
      (\<forall>n. isTokenValid (setTokens r T s) n \<longleftrightarrow> n < T + 3540 * 1000))"
  by (auto simp: isTokenValid_setTokens expiresAt_setTokens split: option.splits)

theorem setTokens_expiry_margin_witness:
  "truthy_str (access_token \<lparr>access_token = Some ''t'', refresh_token = Some ''r'', expires_in = Some 3600\<rparr>) \<and>
   (1000000::int) \<noteq> - 3540000 \<and>
   expiresAt (setTokens \<lparr>access_token = Some ''t'', refresh_token = Some ''r'', expires_in = Some 3600\<rparr>
      1000000 initial_tokenStorage) = Some 4540000 \<and>
   isTokenValid (setTokens \<lparr>access_token = Some ''t'', refresh_token = Some ''r'', expires_in = Some 3600\<rparr>
      1000000 initial_tokenStorage) 4539999 \<and>
   \<not> isTokenValid (setTokens \<lparr>access_token = Some ''t'', refresh_token = Some ''r'', expires_in = Some 3600\<rparr>
      1000000 initial_tokenStorage) 4540000 \<and>
   expiresAt (setTokens \<lparr>access_token = Some ''t'', refresh_token = Some ''r'', expires_in = None\<rparr>
      1000000 initial_tokenStorage) = Some 4540000"
  using setTokens_expiry_margin
    [of "\<lparr>access_token = Some ''t'', refresh_token = Some ''r'', expires_in = Some 3600\<rparr>"
        1000000 initial_tokenStorage]
    setTokens_expiry_margin
    [of "\<lparr>access_token = Some ''t'', refresh_token = Some ''r'', expires_in = None\<rparr>"
        1000000 initial_tokenStorage]
  by (simp add: truthy_str_def)

text \<open>
  Zero cannot be left out of the substitution: a lifetime of zero is present but falsy,
  and its expiry is an hour less the margin ahead, not a minute in the past.
\<close>

theorem setTokens_zero_lifetime_counterexample:
  "expiresAt (setTokens \<lparr>access_token = Some ''t'', refresh_token = Some ''r'', expires_in = Some 0\<rparr>
      1000000 initial_tokenStorage) = Some (1000000 + 3540 * 1000) \<and>
   expiresAt (setTokens \<lparr>access_token = Some ''t'', refresh_token = Some ''r'', expires_in = Some 0\<rparr>
      1000000 initial_tokenStorage) \<noteq> Some (1000000 + (0 - 60) * 1000)"
  by (simp add: setTokens_def)



section \<open>Refreshing the token\<close>

lemma refresh_absent:
  "\<not> truthy_str (refreshToken (tokenStorage \<sigma>)) \<Longrightarrow> refreshAccessToken E \<sigma> = (None, \<sigma>)"
  by (simp add: refreshAccessToken_def truthy_str_def split: option.splits)

lemma refresh_rejected:
  "refreshToken (tokenStorage \<sigma>) = Some rt \<Longrightarrow> rt \<noteq> [] \<Longrightarrow>
   getToken E (RefreshGrant rt) = Inl err \<Longrightarrow>
   refreshAccessToken E \<sigma> =
     (None, \<sigma>\<lparr>tokenStorage := clearTokens (tokenStorage \<sigma>),
               net := net \<sigma> @ [GetToken (RefreshGrant rt)]\<rparr>)"
  by (simp add: refreshAccessToken_def call_def)

lemma refresh_granted:
  "refreshToken (tokenStorage \<sigma>) = Some rt \<Longrightarrow> rt \<noteq> [] \<Longrightarrow>
   getToken E (RefreshGrant rt) = Inr r \<Longrightarrow>
   refreshAccessToken E \<sigma> =
     (getAccessToken (setTokens r (clock E (reads \<sigma>)) (tokenStorage \<sigma>)) (clock E (Suc (reads \<sigma>))),
      \<sigma>\<lparr>tokenStorage := setTokens r (clock E (reads \<sigma>)) (tokenStorage \<sigma>),
        net := net \<sigma> @ [GetToken (RefreshGrant rt)],
        reads := Suc (Suc (reads \<sigma>))\<rparr>)"
  by (simp add: refreshAccessToken_def call_def Date_now_def)

text \<open>
  C6. When the token storage holds no refresh token (\<^verbatim>\<open>null\<close>, or the empty string),
  \<^verbatim>\<open>refreshAccessToken()\<close> returns \<^verbatim>\<open>null\<close> at once: the whole state is as before, so no
  field of the token storage was written or cleared and no network call was made.
\<close>

theorem refresh_without_token_is_noop:
  "\<not> truthy_str (refreshToken (tokenStorage \<sigma>)) \<longrightarrow>
     fst (refreshAccessToken E \<sigma>) = None \<and>
     snd (refreshAccessToken E \<sigma>) = \<sigma> \<and>
     tokenStorage (snd (refreshAccessToken E \<sigma>)) = tokenStorage \<sigma> \<and>
     net (snd (refreshAccessToken E \<sigma>)) = net \<sigma>"
  by (simp add: refresh_absent)

theorem refresh_without_token_is_noop_witness:
  "\<not> truthy_str (refreshToken (tokenStorage logged_out_state)) \<and>
   refreshAccessToken rejecting_env logged_out_state = (None, logged_out_state)"
  using refresh_without_token_is_noop [of logged_out_state rejecting_env]
  by (simp add: logged_out_state_def initial_tokenStorage_def truthy_str_def prod_eq_iff)

text \<open>
  C5. When a refresh token is stored and the provider rejects the refresh exchange,
  \<^verbatim>\<open>refreshAccessToken()\<close> returns \<^verbatim>\<open>null\<close> after that one call and leaves the token
  storage with access token, refresh token and expiry all \<^verbatim>\<open>null\<close>, valid at no clock
  reading; the state tokens are untouched.
\<close>

theorem refresh_rejected_clears:
  "truthy_str (refreshToken (tokenStorage \<sigma>)) \<and>
   getToken E (RefreshGrant (the (refreshToken (tokenStorage \<sigma>)))) = Inl err \<longrightarrow>
     fst (refreshAccessToken E \<sigma>) = None \<and>
     tokenStorage (snd (refreshAccessToken E \<sigma>)) =
       \<lparr>accessToken = None, refreshToken = None, expiresAt = None\<rparr> \<and>
     (\<forall>n. \<not> isTokenValid (tokenStorage (snd (refreshAccessToken E \<sigma>))) n) \<and>
     net (snd (refreshAccessToken E \<sigma>)) =
       net \<sigma> @ [GetToken (RefreshGrant (the (refreshToken (tokenStorage \<sigma>))))] \<and>
     pendingStates (snd (refreshAccessToken E \<sigma>)) = pendingStates \<sigma>"
proof
  assume h: "truthy_str (refreshToken (tokenStorage \<sigma>)) \<and>
   getToken E (RefreshGrant (the (refreshToken (tokenStorage \<sigma>)))) = Inl err"
  then obtain rt where rt: "refreshToken (tokenStorage \<sigma>) = Some rt" "rt \<noteq> []"
    by (auto simp: truthy_str_def split: option.splits)
  with h have "getToken E (RefreshGrant rt) = Inl err" by simp
  from refresh_rejected [OF rt this] rt
  show "fst (refreshAccessToken E \<sigma>) = None \<and>
     tokenStorage (snd (refreshAccessToken E \<sigma>)) =
       \<lparr>accessToken = None, refreshToken = None, expiresAt = None\<rparr> \<and>
     (\<forall>n. \<not> isTokenValid (tokenStorage (snd (refreshAccessToken E \<sigma>))) n) \<and>
     net (snd (refreshAccessToken E \<sigma>)) =
       net \<sigma> @ [GetToken (RefreshGrant (the (refreshToken (tokenStorage \<sigma>))))] \<and>
     pendingStates (snd (refreshAccessToken E \<sigma>)) = pendingStates \<sigma>"
    by (simp add: clearTokens_eq isTokenValid_def truthy_str_def)
qed

theorem refresh_rejected_clears_witness:
  "truthy_str (refreshToken (tokenStorage expired_state)) \<and>
   getToken rejecting_env (RefreshGrant ''R'') = Inl ''invalid_grant'' \<and>
   fst (refreshAccessToken rejecting_env expired_state) = None \<and>
   tokenStorage (snd (refreshAccessToken rejecting_env expired_state)) =
     \<lparr>accessToken = None, refreshToken = None, expiresAt = None\<rparr> \<and>
   net (snd (refreshAccessToken rejecting_env expired_state)) = [GetToken (RefreshGrant ''R'')]"
  using refresh_rejected_clears [of expired_state rejecting_env "''invalid_grant''"]
  by (simp add: expired_state_def rejecting_env_def truthy_str_def)

section \<open>Serving a valid token\<close>

lemma getValid_fast:
  "isTokenValid (tokenStorage \<sigma>) (clock E (reads \<sigma>)) \<Longrightarrow>
   getValidAccessToken E \<sigma> =
     (getAccessToken (tokenStorage \<sigma>) (clock E (Suc (reads \<sigma>))),
      \<sigma>\<lparr>reads := Suc (Suc (reads \<sigma>))\<rparr>)"
  by (simp add: getValidAccessToken_def Date_now_def)

lemma getValid_slow:
  "\<not> isTokenValid (tokenStorage \<sigma>) (clock E (reads \<sigma>)) \<Longrightarrow>
   getValidAccessToken E \<sigma> = refreshAccessToken E (\<sigma>\<lparr>reads := Suc (reads \<sigma>)\<rparr>)"
  by (simp add: getValidAccessToken_def Date_now_def)

text \<open>
  What one call of \<^verbatim>\<open>getValidAccessToken()\<close> does, by the first clock reading, the
  refresh token and the provider's answer. It never makes more than one network call.
\<close>

lemma getValidAccessToken_round_trips:
  "getValidAccessToken E \<sigma> = (tok, \<sigma>') \<Longrightarrow>
   (let s = tokenStorage \<sigma>;
        t0 = clock E (reads \<sigma>);
        t1 = clock E (reads \<sigma> + 1);
        t2 = clock E (reads \<sigma> + 2)
    in (\<exists>calls. net \<sigma>' = net \<sigma> @ calls \<and> length calls \<le> 1) \<and>
       (isTokenValid s t0 \<longrightarrow>
          net \<sigma>' = net \<sigma> \<and> tokenStorage \<sigma>' = s \<and> tok = getAccessToken s t1) \<and>
       (isTokenValid s t0 \<and> isTokenValid s t1 \<longrightarrow> tok = accessToken s) \<and>
       (\<not> isTokenValid s t0 \<and> \<not> truthy_str (refreshToken s) \<longrightarrow>
          tok = None \<and> net \<sigma>' = net \<sigma> \<and> tokenStorage \<sigma>' = s) \<and>
       (\<forall>rt. \<not> isTokenValid s t0 \<and> refreshToken s = Some rt \<and> rt \<noteq> [] \<longrightarrow>
          net \<sigma>' = net \<sigma> @ [GetToken (RefreshGrant rt)] \<and>
          (case getToken E (RefreshGrant rt) of
             Inl err \<Rightarrow>
               tok = None \<and>
               tokenStorage \<sigma>' = \<lparr>accessToken = None, refreshToken = None, expiresAt = None\<rparr>
           | Inr r \<Rightarrow>
               tokenStorage \<sigma>' = setTokens r t1 s \<and>
               tok = getAccessToken (setTokens r t1 s) t2 \<and>
               (isTokenValid (setTokens r t1 s) t2 \<longrightarrow> tok = access_token r))))"
proof (cases "isTokenValid (tokenStorage \<sigma>) (clock E (reads \<sigma>))")
  case True
  assume run: "getValidAccessToken E \<sigma> = (tok, \<sigma>')"
  with getValid_fast [OF True, of ] have
    "tok = getAccessToken (tokenStorage \<sigma>) (clock E (Suc (reads \<sigma>)))"
    "\<sigma>' = \<sigma>\<lparr>reads := Suc (Suc (reads \<sigma>))\<rparr>"
    by simp_all
  with True show ?thesis
    by (simp add: Let_def getAccessToken_def)
next
  case False
  assume run: "getValidAccessToken E \<sigma> = (tok, \<sigma>')"
  with getValid_slow [OF False] have
    r: "refreshAccessToken E (\<sigma>\<lparr>reads := Suc (reads \<sigma>)\<rparr>) = (tok, \<sigma>')"
    by simp
  show ?thesis
  proof (cases "truthy_str (refreshToken (tokenStorage \<sigma>))")
    case absent: False
    with r refresh_absent [of "\<sigma>\<lparr>reads := Suc (reads \<sigma>)\<rparr>" E]
    have "tok = None" "\<sigma>' = \<sigma>\<lparr>reads := Suc (reads \<sigma>)\<rparr>" by simp_all
    with False absent show ?thesis
      by (auto simp: Let_def truthy_str_def)
  next
    case present: True
    then obtain rt where rt: "refreshToken (tokenStorage \<sigma>) = Some rt" "rt \<noteq> []"
      by (auto simp: truthy_str_def split: option.splits)
    show ?thesis
    proof (cases "getToken E (RefreshGrant rt)")
      case (Inl err)
      with r rt refresh_rejected [of "\<sigma>\<lparr>reads := Suc (reads \<sigma>)\<rparr>" rt E err]
      have "tok = None"
        "\<sigma>' = \<sigma>\<lparr>reads := Suc (reads \<sigma>), tokenStorage := clearTokens (tokenStorage \<sigma>),
                 net := net \<sigma> @ [GetToken (RefreshGrant rt)]\<rparr>"
        by auto
      with False present rt Inl show ?thesis
        by (simp add: Let_def clearTokens_eq)
    next
      case (Inr resp)
      with r rt refresh_granted [of "\<sigma>\<lparr>reads := Suc (reads \<sigma>)\<rparr>" rt E resp]
      have "tok = getAccessToken (setTokens resp (clock E (Suc (reads \<sigma>))) (tokenStorage \<sigma>))
                    (clock E (Suc (Suc (reads \<sigma>))))"
        "\<sigma>' = \<sigma>\<lparr>reads := Suc (Suc (Suc (reads \<sigma>))),
                 tokenStorage := setTokens resp (clock E (Suc (reads \<sigma>))) (tokenStorage \<sigma>),
                 net := net \<sigma> @ [GetToken (RefreshGrant rt)]\<rparr>"
        by auto
      with False present rt Inr show ?thesis
        by (simp add: Let_def getAccessToken_def accessToken_setTokens)
    qed
  qed
qed

text \<open>
  C2. The claim asks that a call without a valid token make one refresh attempt, and that
  a granted refresh yield the newly stored access token. The code misses both. Where the
  provider grants a token for sixty seconds, the refresh succeeds and the new token is
  stored, yet the result is \<^verbatim>\<open>null\<close>, the answer that tells the caller to authenticate
  again. And a token that is valid when checked and expires a millisecond later, before
  \<^verbatim>\<open>getAccessToken()\<close> reads the clock, gives \<^verbatim>\<open>null\<close> with no refresh at all, though a
  refresh token is stored.
\<close>

theorem getValidAccessToken_granted_yet_null:
  "\<not> isTokenValid (tokenStorage expired_state) (clock short_lived_env (reads expired_state)) \<and>
   getToken short_lived_env (RefreshGrant ''R'') =
     Inr \<lparr>access_token = Some ''N'', refresh_token = Some ''R2'', expires_in = Some 60\<rparr> \<and>
   fst (getValidAccessToken short_lived_env expired_state) = None \<and>
   tokenStorage (snd (getValidAccessToken short_lived_env expired_state)) =
     \<lparr>accessToken = Some ''N'', refreshToken = Some ''R2'', expiresAt = Some 5000001\<rparr> \<and>
   net (snd (getValidAccessToken short_lived_env expired_state)) = [GetToken (RefreshGrant ''R'')] \<and>
   isTokenValid (tokenStorage expiring_state) (clock granting_env (reads expiring_state)) \<and>
   refreshToken (tokenStorage expiring_state) = Some ''R'' \<and>
   getValidAccessToken granting_env expiring_state = (None, expiring_state\<lparr>reads := 2\<rparr>)"
  by (simp add: getValidAccessToken_def refreshAccessToken_def Date_now_def call_def
      expired_state_def expiring_state_def short_lived_env_def granting_env_def isTokenValid_def
      getAccessToken_def setTokens_def truthy_str_def truthy_num_def)

section \<open>The map of state tokens\<close>

lemma Map_has_delete: "Map_has (Map_delete k m) k' \<longleftrightarrow> k' \<noteq> k \<and> Map_has m k'"
  by (auto simp: Map_has_def Map_delete_def AList.delete_eq)

lemma Map_has_set: "Map_has (Map_set k v m) k' \<longleftrightarrow> k' = k \<or> Map_has m k'"
  using AList.dom_update [of k v m] by (auto simp: Map_has_def Map_set_def)

lemma map_of_Map_set: "map_of (Map_set k v m) k = Some v"
  by (simp add: Map_set_def AList.update_conv')

lemma length_toString_hex: "length (toString_hex bs) = 2 * length bs"
  by (induction bs) (simp_all add: toString_hex_def)

lemma Map_has_sweep_loop: "Map_has (sweep_loop now es m) k \<Longrightarrow> Map_has m k"
  by (induction now es m rule: sweep_loop.induct) (auto simp: Map_has_delete split: if_splits)

lemma Map_has_consumed:
  "validateAndConsume received m = Inr m' \<Longrightarrow> Map_has m' k \<Longrightarrow> Map_has m k"
  by (auto simp: validateAndConsume_def Map_has_delete split: option.splits if_splits)

lemma validate_absent: "\<not> Map_has m st \<Longrightarrow> validateAndConsume (Some st) m = Inl InvalidState"
  by (simp add: validateAndConsume_def)

lemma validate_present:
  "st \<noteq> [] \<Longrightarrow> Map_has m st \<Longrightarrow> validateAndConsume (Some st) m = Inr (Map_delete st m)"
  by (simp add: validateAndConsume_def)

lemma generateAuthUrl_eq:
  "generateAuthUrl E \<sigma> =
     ((AuthorizeURL (toString_hex (randomBytes15 E)), toString_hex (randomBytes15 E)),
      \<sigma>\<lparr>reads := Suc (reads \<sigma>),
        pendingStates := Map_set (toString_hex (randomBytes15 E)) (clock E (reads \<sigma>)) (pendingStates \<sigma>)\<rparr>)"
  by (simp add: generateAuthUrl_def Date_now_def Let_def)

lemma issued_value:
  "toString_hex (randomBytes15 issuing_env) = ''001fa233445566778899aabbccdeff''"
  by (simp add: issuing_env_def toString_hex_def hex_digit_def)

section \<open>The periodic cleanup\<close>

lemma sweep_loop_filter:
  "sweep_loop now es m =
     filter (\<lambda>(k, ts). \<not> (\<exists>ts'. (k, ts') \<in> set es \<and> now - ts' > 10 * 60 * 1000)) m"
proof (induction now es m rule: sweep_loop.induct)
  case (1 now m)
  then show ?case by simp
next
  case (2 now state timestamp entries m)
  then show ?case
    by (auto simp: Map_delete_def AList.delete_eq intro!: filter_cong)
qed

lemma sweep_loop_self:
  assumes "distinct (map fst m)"
  shows "sweep_loop now m m = filter (\<lambda>(k, ts). \<not> now - ts > 10 * 60 * 1000) m"
proof -
  have "\<And>k ts ts'. (k, ts) \<in> set m \<Longrightarrow> (k, ts') \<in> set m \<Longrightarrow> ts' = ts"
    using assms by (meson eq_key_imp_eq_value)
  then show ?thesis
    unfolding sweep_loop_filter by (intro filter_cong) auto
qed

lemma sweep_eq:
  "sweep E \<sigma> = \<sigma>\<lparr>reads := Suc (reads \<sigma>),
     pendingStates := sweep_loop (clock E (reads \<sigma>)) (pendingStates \<sigma>) (pendingStates \<sigma>)\<rparr>"
  by (simp add: sweep_def Date_now_def)

lemma distinct_Map_set: "distinct (map fst m) \<Longrightarrow> distinct (map fst (Map_set k v m))"
  by (simp add: Map_set_def AList.distinct_update)

lemma distinct_Map_delete: "distinct (map fst m) \<Longrightarrow> distinct (map fst (Map_delete k m))"
  by (simp add: Map_delete_def AList.distinct_delete)

lemma distinct_sweep_loop: "distinct (map fst m) \<Longrightarrow> distinct (map fst (sweep_loop now es m))"
  by (simp add: sweep_loop_filter distinct_map_filter)

text \<open>
  C7. On a map with one entry per key, a run of the cleanup at time \<open>now\<close> keeps, in
  order, exactly the entries with \<open>now - timestamp \<le> 10\<close> minutes and removes exactly
  those older; a state removed this way is rejected by the state check with
  \<open>InvalidState\<close> though it was never consumed. The token storage is untouched.
\<close>

theorem sweep_removes_exactly_expired:
  "distinct (map fst (pendingStates \<sigma>)) \<longrightarrow>
     pendingStates (sweep E \<sigma>) =
       filter (\<lambda>(st, ts). \<not> clock E (reads \<sigma>) - ts > 10 * 60 * 1000) (pendingStates \<sigma>) \<and>
     (\<forall>st ts. (st, ts) \<in> set (pendingStates (sweep E \<sigma>)) \<longleftrightarrow>
        (st, ts) \<in> set (pendingStates \<sigma>) \<and> clock E (reads \<sigma>) - ts \<le> 10 * 60 * 1000) \<and>
     (\<forall>st ts. (st, ts) \<in> set (pendingStates \<sigma>) \<and> clock E (reads \<sigma>) - ts > 10 * 60 * 1000 \<longrightarrow>
        validateAndConsume (Some st) (pendingStates (sweep E \<sigma>)) = Inl InvalidState) \<and>
     tokenStorage (sweep E \<sigma>) = tokenStorage \<sigma>"
proof
  assume d: "distinct (map fst (pendingStates \<sigma>))"
  let ?now = "clock E (reads \<sigma>)"
  have eq: "pendingStates (sweep E \<sigma>) =
       filter (\<lambda>(st, ts). \<not> ?now - ts > 10 * 60 * 1000) (pendingStates \<sigma>)"
    by (simp add: sweep_eq sweep_loop_self [OF d])
  have mem: "\<forall>st ts. (st, ts) \<in> set (pendingStates (sweep E \<sigma>)) \<longleftrightarrow>
        (st, ts) \<in> set (pendingStates \<sigma>) \<and> ?now - ts \<le> 10 * 60 * 1000"
    unfolding eq by auto
  have gone: "\<forall>st ts. (st, ts) \<in> set (pendingStates \<sigma>) \<and> ?now - ts > 10 * 60 * 1000 \<longrightarrow>
        validateAndConsume (Some st) (pendingStates (sweep E \<sigma>)) = Inl InvalidState"
  proof (intro allI impI)
    fix st ts assume old: "(st, ts) \<in> set (pendingStates \<sigma>) \<and> ?now - ts > 10 * 60 * 1000"
    have "\<not> Map_has (pendingStates (sweep E \<sigma>)) st"
    proof
      assume "Map_has (pendingStates (sweep E \<sigma>)) st"
      then obtain ts' where "(st, ts') \<in> set (pendingStates (sweep E \<sigma>))"
        by (auto simp: Map_has_def)
      with mem have in': "(st, ts') \<in> set (pendingStates \<sigma>)" and young: "?now - ts' \<le> 10 * 60 * 1000"
        by auto
      from d in' old have "ts' = ts" by (meson eq_key_imp_eq_value)
      with young old show False by simp
    qed
    then show "validateAndConsume (Some st) (pendingStates (sweep E \<sigma>)) = Inl InvalidState"
      by (rule validate_absent)
  qed
  have "tokenStorage (sweep E \<sigma>) = tokenStorage \<sigma>" by (simp add: sweep_eq)
  with eq mem gone show
    "pendingStates (sweep E \<sigma>) =
       filter (\<lambda>(st, ts). \<not> ?now - ts > 10 * 60 * 1000) (pendingStates \<sigma>) \<and>
     (\<forall>st ts. (st, ts) \<in> set (pendingStates (sweep E \<sigma>)) \<longleftrightarrow>
        (st, ts) \<in> set (pendingStates \<sigma>) \<and> ?now - ts \<le> 10 * 60 * 1000) \<and>
     (\<forall>st ts. (st, ts) \<in> set (pendingStates \<sigma>) \<and> ?now - ts > 10 * 60 * 1000 \<longrightarrow>
        validateAndConsume (Some st) (pendingStates (sweep E \<sigma>)) = Inl InvalidState) \<and>
     tokenStorage (sweep E \<sigma>) = tokenStorage \<sigma>"
    by blast
qed

theorem sweep_removes_exactly_expired_witness:
  "distinct (map fst (pendingStates waiting_state)) \<and>
   clock sweeping_env (reads waiting_state) = 11 * 60 * 1000 \<and>
   pendingStates (sweep sweeping_env waiting_state) = [(''def456'', 60000), (''0a0b0c'', 600000)] \<and>
   validateAndConsume (Some ''abc123'') (pendingStates (sweep sweeping_env waiting_state))
     = Inl InvalidState"
proof -
  have d: "distinct (map fst (pendingStates waiting_state))"
    by (simp add: waiting_state_def)
  have c: "clock sweeping_env (reads waiting_state) = 11 * 60 * 1000"
    by (simp add: sweeping_env_def)
  have m: "(''abc123'', 0) \<in> set (pendingStates waiting_state) \<and>
           clock sweeping_env (reads waiting_state) - 0 > 10 * 60 * 1000"
    by (simp add: waiting_state_def sweeping_env_def)
  note T = sweep_removes_exactly_expired [of waiting_state sweeping_env, rule_format, OF d]
  from T have "pendingStates (sweep sweeping_env waiting_state) =
       filter (\<lambda>(st, ts). \<not> clock sweeping_env (reads waiting_state) - ts > 10 * 60 * 1000)
         (pendingStates waiting_state)" by blast
  then have p: "pendingStates (sweep sweeping_env waiting_state)
      = [(''def456'', 60000), (''0a0b0c'', 600000)]"
    by (simp add: waiting_state_def sweeping_env_def)
  from T m have "validateAndConsume (Some ''abc123'') (pendingStates (sweep sweeping_env waiting_state))
     = Inl InvalidState" by blast
  with d c p show ?thesis by blast
qed

section \<open>The OAuth callback\<close>

lemma callback_invalid_state:
  "\<not> Map_has (pendingStates \<sigma>) st \<Longrightarrow>
   oauth_callback E \<lparr>q_state = Some st, q_code = code\<rparr> \<sigma> =
     (Reply 403 (ErrorOnly ''Invalid state parameter''), \<sigma>)"
  by (simp add: oauth_callback_def validate_absent)

lemma callback_missing_code:
  "st \<noteq> [] \<Longrightarrow> Map_has (pendingStates \<sigma>) st \<Longrightarrow> q_state query = Some st \<Longrightarrow>
   \<not> truthy_str (q_code query) \<Longrightarrow>
   oauth_callback E query \<sigma> =
     (Reply 400 (ErrorOnly ''Missing authorization code''),
      \<sigma>\<lparr>pendingStates := Map_delete st (pendingStates \<sigma>)\<rparr>)"
  by (simp add: oauth_callback_def validate_present truthy_str_def split: option.splits)

text \<open>
  C9. A callback whose state matches an outstanding entry and that carries no
  authorization code (none, or an empty one) is answered 400 "Missing authorization
  code", and the entry is deleted all the same; tokens and network are untouched. A
  replay of the callback with that state, with any code and in any environment, is then
  answered 403 "Invalid state parameter".
\<close>

theorem callback_without_code_consumes_state:
  "st \<noteq> [] \<and> Map_has (pendingStates \<sigma>) st \<and> q_state query = Some st \<and>
   \<not> truthy_str (q_code query) \<longrightarrow>
     fst (oauth_callback E query \<sigma>) = Reply 400 (ErrorOnly ''Missing authorization code'') \<and>
     pendingStates (snd (oauth_callback E query \<sigma>)) = Map_delete st (pendingStates \<sigma>) \<and>
     \<not> Map_has (pendingStates (snd (oauth_callback E query \<sigma>))) st \<and>
     tokenStorage (snd (oauth_callback E query \<sigma>)) = tokenStorage \<sigma> \<and>
     net (snd (oauth_callback E query \<sigma>)) = net \<sigma> \<and>
     (\<forall>E' code. oauth_callback E' \<lparr>q_state = Some st, q_code = code\<rparr> (snd (oauth_callback E query \<sigma>)) =
        (Reply 403 (ErrorOnly ''Invalid state parameter''), snd (oauth_callback E query \<sigma>)))"
proof
  assume h: "st \<noteq> [] \<and> Map_has (pendingStates \<sigma>) st \<and> q_state query = Some st \<and>
   \<not> truthy_str (q_code query)"
  then have run: "oauth_callback E query \<sigma> =
     (Reply 400 (ErrorOnly ''Missing authorization code''),
      \<sigma>\<lparr>pendingStates := Map_delete st (pendingStates \<sigma>)\<rparr>)"
    by (simp add: callback_missing_code)
  have gone: "\<not> Map_has (pendingStates (\<sigma>\<lparr>pendingStates := Map_delete st (pendingStates \<sigma>)\<rparr>)) st"
    by (simp add: Map_has_delete)
  have "\<forall>E' code. oauth_callback E' \<lparr>q_state = Some st, q_code = code\<rparr>
          (\<sigma>\<lparr>pendingStates := Map_delete st (pendingStates \<sigma>)\<rparr>) =
        (Reply 403 (ErrorOnly ''Invalid state parameter''),
         \<sigma>\<lparr>pendingStates := Map_delete st (pendingStates \<sigma>)\<rparr>)"
    using callback_invalid_state [OF gone] by blast
  with gone show
    "fst (oauth_callback E query \<sigma>) = Reply 400 (ErrorOnly ''Missing authorization code'') \<and>
     pendingStates (snd (oauth_callback E query \<sigma>)) = Map_delete st (pendingStates \<sigma>) \<and>
     \<not> Map_has (pendingStates (snd (oauth_callback E query \<sigma>))) st \<and>
     tokenStorage (snd (oauth_callback E query \<sigma>)) = tokenStorage \<sigma> \<and>
     net (snd (oauth_callback E query \<sigma>)) = net \<sigma> \<and>
     (\<forall>E' code. oauth_callback E' \<lparr>q_state = Some st, q_code = code\<rparr> (snd (oauth_callback E query \<sigma>)) =
        (Reply 403 (ErrorOnly ''Invalid state parameter''), snd (oauth_callback E query \<sigma>)))"
    unfolding run by simp
qed

theorem callback_without_code_consumes_state_witness:
  "Map_has (pendingStates awaiting_callback) ''abc123'' \<and>
   \<not> truthy_str (q_code \<lparr>q_state = Some ''abc123'', q_code = None\<rparr>) \<and>
   oauth_callback granting_env \<lparr>q_state = Some ''abc123'', q_code = None\<rparr> awaiting_callback =
     (Reply 400 (ErrorOnly ''Missing authorization code''), awaiting_callback\<lparr>pendingStates := []\<rparr>) \<and>
   oauth_callback granting_env \<lparr>q_state = Some ''abc123'', q_code = Some ''code''\<rparr>
     (awaiting_callback\<lparr>pendingStates := []\<rparr>) =
     (Reply 403 (ErrorOnly ''Invalid state parameter''), awaiting_callback\<lparr>pendingStates := []\<rparr>)"
proof -
  have a: "Map_has (pendingStates awaiting_callback) ''abc123''"
    by (simp add: awaiting_callback_def Map_has_def)
  have b: "\<not> truthy_str (q_code \<lparr>q_state = Some ''abc123'', q_code = None\<rparr>)"
    by (simp add: truthy_str_def)
  have e: "oauth_callback granting_env \<lparr>q_state = Some ''abc123'', q_code = None\<rparr> awaiting_callback =
     (Reply 400 (ErrorOnly ''Missing authorization code''), awaiting_callback\<lparr>pendingStates := []\<rparr>)"
    by (simp add: oauth_callback_def validateAndConsume_def Map_has_def Map_delete_def
        awaiting_callback_def)
  note T = callback_without_code_consumes_state
    [of "''abc123''" awaiting_callback "\<lparr>q_state = Some ''abc123'', q_code = None\<rparr>" granting_env,
     rule_format]
  from T a b have "oauth_callback granting_env \<lparr>q_state = Some ''abc123'', q_code = Some ''code''\<rparr>
     (snd (oauth_callback granting_env \<lparr>q_state = Some ''abc123'', q_code = None\<rparr> awaiting_callback)) =
     (Reply 403 (ErrorOnly ''Invalid state parameter''),
      snd (oauth_callback granting_env \<lparr>q_state = Some ''abc123'', q_code = None\<rparr> awaiting_callback))"
    by simp
  with a b e show ?thesis by simp
qed

section \<open>State tokens are used once\<close>

lemma pendingStates_refresh:
  "pendingStates (snd (refreshAccessToken E \<sigma>)) = pendingStates \<sigma>"
  by (simp add: refreshAccessToken_def call_def Date_now_def Let_def split: option.splits sum.splits)

lemma pendingStates_getValid:
  "pendingStates (snd (getValidAccessToken E \<sigma>)) = pendingStates \<sigma>"
  using pendingStates_refresh [of E "\<sigma>\<lparr>reads := Suc (reads \<sigma>)\<rparr>"]
  by (simp add: getValidAccessToken_def Date_now_def Let_def)

lemma pendingStates_generateAuthUrl:
  "pendingStates (snd (generateAuthUrl E \<sigma>)) =
     Map_set (toString_hex (randomBytes15 E)) (clock E (reads \<sigma>)) (pendingStates \<sigma>)"
  by (simp add: generateAuthUrl_eq)

lemma pendingStates_auth_new:
  "pendingStates (snd (auth_new E \<sigma>)) =
     Map_set (toString_hex (randomBytes15 E)) (clock E (reads \<sigma>)) (pendingStates \<sigma>)"
  by (simp add: auth_new_def generateAuthUrl_eq)

lemma pendingStates_re_authenticate:
  "pendingStates (snd (re_authenticate E \<sigma>)) =
     Map_set (toString_hex (randomBytes15 E)) (clock E (reads \<sigma>)) (pendingStates \<sigma>)"
  by (simp add: re_authenticate_def generateAuthUrl_eq Let_def)

lemma pendingStates_auth_status:
  "pendingStates (snd (auth_status E \<sigma>)) = pendingStates \<sigma> \<or>
   (\<exists>t. pendingStates (snd (auth_status E \<sigma>)) =
      Map_set (toString_hex (randomBytes15 E)) t (pendingStates \<sigma>))"
  by (auto simp: auth_status_def generateAuthUrl_eq Date_now_def Let_def)

lemma pendingStates_send_sms:
  "pendingStates (snd (send_sms E req \<sigma>)) = pendingStates \<sigma> \<or>
   (\<exists>t. pendingStates (snd (send_sms E req \<sigma>)) =
      Map_set (toString_hex (randomBytes15 E)) t (pendingStates \<sigma>))"
proof (cases "getValidAccessToken E \<sigma>")
  case (Pair tok \<sigma>1)
  with pendingStates_getValid [of E \<sigma>] have p: "pendingStates \<sigma>1 = pendingStates \<sigma>" by simp
  show ?thesis
    unfolding send_sms_def Let_def Pair
    by (auto simp: generateAuthUrl_eq call_def p split: axios_result.splits)
qed

lemma pendingStates_callback:
  "pendingStates (snd (oauth_callback E query \<sigma>)) =
     (case validateAndConsume (q_state query) (pendingStates \<sigma>) of
        Inl e \<Rightarrow> pendingStates \<sigma> | Inr m \<Rightarrow> m)"
  by (simp add: oauth_callback_def call_def Date_now_def Let_def
      split: sum.splits registry_error.splits option.splits axios_result.splits)

lemma pendingStates_issuing_step:
  "ev = AuthNew E \<or> ev = AuthStatus E \<or> ev = ReAuthenticate E \<or> ev = SendSmsPost E req \<Longrightarrow>
   pendingStates (step ev \<sigma>) = pendingStates \<sigma> \<or>
   (\<exists>t. pendingStates (step ev \<sigma>) = Map_set (toString_hex (randomBytes15 E)) t (pendingStates \<sigma>))"
  using pendingStates_auth_new [of E \<sigma>] pendingStates_re_authenticate [of E \<sigma>]
    pendingStates_auth_status [of E \<sigma>] pendingStates_send_sms [of E req \<sigma>]
  by auto

lemma map_of_Map_set_other: "k' \<noteq> k \<Longrightarrow> map_of (Map_set k v m) k' = map_of m k'"
  by (simp add: Map_set_def AList.update_conv')

lemma map_of_Map_delete_other: "k' \<noteq> k \<Longrightarrow> map_of (Map_delete k m) k' = map_of m k'"
  by (simp add: Map_delete_def)

lemma Map_has_map_of: "Map_has m k \<longleftrightarrow> map_of m k \<noteq> None"
  by (simp add: Map_has_def map_of_eq_None_iff)

lemma map_of_sweep_young:
  assumes "distinct (map fst m)" "map_of m st = Some ts" "\<not> now - ts > 10 * 60 * 1000"
  shows "map_of (sweep_loop now m m) st = Some ts"
proof -
  from assms(2) have "(st, ts) \<in> set m" by (rule map_of_SomeD)
  with assms(3) have "(st, ts) \<in> set (sweep_loop now m m)"
    by (simp add: sweep_loop_self [OF assms(1)])
  moreover have "distinct (map fst (sweep_loop now m m))"
    using assms(1) by (rule distinct_sweep_loop)
  ultimately show ?thesis by simp
qed

lemma step_undisturbed:
  assumes d: "distinct (map fst (pendingStates \<sigma>))"
    and m: "map_of (pendingStates \<sigma>) st = Some ts"
    and i: "\<not> issues st ev" and r: "\<not> takes_away st ts ev \<sigma>"
  shows "distinct (map fst (pendingStates (step ev \<sigma>))) \<and>
         map_of (pendingStates (step ev \<sigma>)) st = Some ts"
proof -
  have issuing: "distinct (map fst (pendingStates (step ev \<sigma>))) \<and>
         map_of (pendingStates (step ev \<sigma>)) st = Some ts"
    if "ev = AuthNew E \<or> ev = AuthStatus E \<or> ev = ReAuthenticate E \<or> ev = SendSmsPost E req"
    for E req
  proof -
    from that i have ne: "st \<noteq> toString_hex (randomBytes15 E)" by auto
    from pendingStates_issuing_step [OF that, of \<sigma>] d m ne show ?thesis
      by (auto simp: distinct_Map_set map_of_Map_set_other)
  qed
  show ?thesis
  proof (cases ev)
    case (Callback E query)
    with r have ne: "q_state query \<noteq> Some st" by simp
    show ?thesis
    proof (cases "validateAndConsume (q_state query) (pendingStates \<sigma>)")
      case (Inl e)
      with Callback d m show ?thesis by (simp add: pendingStates_callback)
    next
      case (Inr m')
      then obtain k where k: "q_state query = Some k" "m' = Map_delete k (pendingStates \<sigma>)"
        by (auto simp: validateAndConsume_def split: option.splits if_splits)
      with ne have "st \<noteq> k" by auto
      with Callback Inr k d m show ?thesis
        by (simp add: pendingStates_callback distinct_Map_delete map_of_Map_delete_other)
    qed
  next
    case (Cleanup E)
    with r have "\<not> clock E (reads \<sigma>) - ts > 10 * 60 * 1000" by simp
    with Cleanup d m show ?thesis
      by (simp add: sweep_eq distinct_sweep_loop map_of_sweep_young)
  qed (use issuing in blast)+
qed

lemma fold_step_undisturbed:
  "distinct (map fst (pendingStates \<sigma>)) \<Longrightarrow> map_of (pendingStates \<sigma>) st = Some ts \<Longrightarrow>
   undisturbed st ts evs \<sigma> \<Longrightarrow>
   distinct (map fst (pendingStates (fold step evs \<sigma>))) \<and>
   map_of (pendingStates (fold step evs \<sigma>)) st = Some ts"
proof (induction evs arbitrary: \<sigma>)
  case Nil
  then show ?case by simp
next
  case (Cons ev evs)
  from Cons.prems have "distinct (map fst (pendingStates (step ev \<sigma>))) \<and>
         map_of (pendingStates (step ev \<sigma>)) st = Some ts"
    by (intro step_undisturbed) simp_all
  with Cons.prems Cons.IH [of "step ev \<sigma>"] show ?case by simp
qed

lemma step_absent:
  assumes i: "\<not> issues st ev" and a: "\<not> Map_has (pendingStates \<sigma>) st"
  shows "\<not> Map_has (pendingStates (step ev \<sigma>)) st"
proof -
  have issuing: "\<not> Map_has (pendingStates (step ev \<sigma>)) st"
    if "ev = AuthNew E \<or> ev = AuthStatus E \<or> ev = ReAuthenticate E \<or> ev = SendSmsPost E req"
    for E req
  proof -
    from that i have ne: "st \<noteq> toString_hex (randomBytes15 E)" by auto
    from pendingStates_issuing_step [OF that, of \<sigma>] a ne show ?thesis
      by (auto simp: Map_has_set)
  qed
  show ?thesis
  proof (cases ev)
    case (Callback E query)
    with a show ?thesis
      by (auto simp: pendingStates_callback dest: Map_has_consumed split: sum.splits)
  next
    case (Cleanup E)
    with a show ?thesis
      by (auto simp: sweep_eq dest: Map_has_sweep_loop)
  qed (use issuing in blast)+
qed

lemma fold_step_absent:
  "\<not> list_ex (issues st) evs \<Longrightarrow> \<not> Map_has (pendingStates \<sigma>) st \<Longrightarrow>
   \<not> Map_has (pendingStates (fold step evs \<sigma>)) st"
  by (induction evs arbitrary: \<sigma>) (auto simp: step_absent)

lemma callback_reply_403:
  "fst (oauth_callback E query \<sigma>) = Reply 403 (ErrorOnly ''Invalid state parameter'') \<longleftrightarrow>
   validateAndConsume (q_state query) (pendingStates \<sigma>) = Inl InvalidState"
  by (simp add: oauth_callback_def Let_def Date_now_def
      split: sum.splits registry_error.splits option.splits axios_result.splits prod.splits)

lemma second_issued_value:
  "toString_hex (randomBytes15 second_issuing_env) = ''102132435465768798a9bacbdcedfe''"
  by (simp add: second_issuing_env_def toString_hex_def hex_digit_def)

text \<open>
  C4. A state token issued by \<^verbatim>\<open>generateAuthUrl()\<close> from fifteen random bytes is thirty
  hexadecimal digits, stored with the time of issue beside the states already there.
  Whatever requests and cleanups follow that neither issue it again nor take it away,
  the state check accepts it on the first call: the callback is not answered 403 and
  deletes that entry and no other. After that, whatever follows that does not issue
  the value again, the check rejects it with \<open>InvalidState\<close> and the callback answers 403.
  A value with no entry (never issued, consumed or swept) is rejected likewise.
\<close>

theorem state_token_single_use:
  assumes "length (randomBytes15 E) = 15"
    and "distinct (map fst (pendingStates \<sigma>))"
    and "generateAuthUrl E \<sigma> = ((url, st), \<sigma>0)"
    and "undisturbed st (clock E (reads \<sigma>)) evs \<sigma>0"
    and "\<sigma>1 = fold step evs \<sigma>0"
    and "q_state query = Some st"
    and "oauth_callback E1 query \<sigma>1 = (reply, \<sigma>2)"
    and "\<not> list_ex (issues st) later"
    and "\<sigma>3 = fold step later \<sigma>2"
  shows "length st = 30 \<and>
         map_of (pendingStates \<sigma>0) st = Some (clock E (reads \<sigma>)) \<and>
         (\<forall>k. k \<noteq> st \<longrightarrow> map_of (pendingStates \<sigma>0) k = map_of (pendingStates \<sigma>) k) \<and>
         validateAndConsume (Some st) (pendingStates \<sigma>1) = Inr (Map_delete st (pendingStates \<sigma>1)) \<and>
         reply \<noteq> Reply 403 (ErrorOnly ''Invalid state parameter'') \<and>
         pendingStates \<sigma>2 = Map_delete st (pendingStates \<sigma>1) \<and>
         (\<forall>k. k \<noteq> st \<longrightarrow> map_of (pendingStates \<sigma>2) k = map_of (pendingStates \<sigma>1) k) \<and>
         validateAndConsume (Some st) (pendingStates \<sigma>3) = Inl InvalidState \<and>
         (\<forall>E2 code. fst (oauth_callback E2 \<lparr>q_state = Some st, q_code = code\<rparr> \<sigma>3) =
            Reply 403 (ErrorOnly ''Invalid state parameter'')) \<and>
         (\<forall>m v. \<not> Map_has m v \<longrightarrow> validateAndConsume (Some v) m = Inl InvalidState)"
proof -
  let ?ts = "clock E (reads \<sigma>)"
  from assms(3) have st: "st = toString_hex (randomBytes15 E)"
    and p0: "pendingStates \<sigma>0 = Map_set st ?ts (pendingStates \<sigma>)"
    by (auto simp: generateAuthUrl_eq)
  from assms(1) st have len: "length st = 30" by (simp add: length_toString_hex)
  then have ne: "st \<noteq> []" by auto
  from p0 have m0: "map_of (pendingStates \<sigma>0) st = Some ?ts" by (simp add: map_of_Map_set)
  from p0 have o0: "\<forall>k. k \<noteq> st \<longrightarrow> map_of (pendingStates \<sigma>0) k = map_of (pendingStates \<sigma>) k"
    by (simp add: map_of_Map_set_other)
  from p0 assms(2) have d0: "distinct (map fst (pendingStates \<sigma>0))"
    by (simp add: distinct_Map_set)
  from fold_step_undisturbed [OF d0 m0 assms(4)] assms(5)
  have m1: "map_of (pendingStates \<sigma>1) st = Some ?ts" by simp
  then have "Map_has (pendingStates \<sigma>1) st" by (simp add: Map_has_map_of)
  with ne have v1: "validateAndConsume (Some st) (pendingStates \<sigma>1) =
      Inr (Map_delete st (pendingStates \<sigma>1))"
    by (rule validate_present)
  from assms(7) have r: "reply = fst (oauth_callback E1 query \<sigma>1)"
    and s2: "\<sigma>2 = snd (oauth_callback E1 query \<sigma>1)" by simp_all
  from r v1 assms(6) have r403: "reply \<noteq> Reply 403 (ErrorOnly ''Invalid state parameter'')"
    by (simp add: callback_reply_403)
  from s2 v1 assms(6) have p2: "pendingStates \<sigma>2 = Map_delete st (pendingStates \<sigma>1)"
    by (simp add: pendingStates_callback)
  then have o2: "\<forall>k. k \<noteq> st \<longrightarrow> map_of (pendingStates \<sigma>2) k = map_of (pendingStates \<sigma>1) k"
    by (simp add: map_of_Map_delete_other)
  from p2 have "\<not> Map_has (pendingStates \<sigma>2) st" by (simp add: Map_has_delete)
  with assms(8,9) have a3: "\<not> Map_has (pendingStates \<sigma>3) st"
    by (simp add: fold_step_absent)
  then have v3: "validateAndConsume (Some st) (pendingStates \<sigma>3) = Inl InvalidState"
    by (rule validate_absent)
  from a3 have c3: "\<forall>E2 code. fst (oauth_callback E2 \<lparr>q_state = Some st, q_code = code\<rparr> \<sigma>3) =
            Reply 403 (ErrorOnly ''Invalid state parameter'')"
    by (simp add: callback_invalid_state)
  have never: "\<forall>m v. \<not> Map_has m v \<longrightarrow> validateAndConsume (Some v) m = Inl InvalidState"
    by (simp add: validate_absent)
  from len m0 o0 v1 r403 p2 o2 v3 c3 never show ?thesis by blast
qed

theorem state_token_single_use_witness:
  "length (randomBytes15 issuing_env) = 15 \<and>
   distinct (map fst (pendingStates logged_out_state)) \<and>
   generateAuthUrl issuing_env logged_out_state =
     ((AuthorizeURL ''001fa233445566778899aabbccdeff'', ''001fa233445566778899aabbccdeff''),
      logged_out_state\<lparr>reads := 1,
        pendingStates := [(''001fa233445566778899aabbccdeff'', 5000000)]\<rparr>) \<and>
   undisturbed ''001fa233445566778899aabbccdeff'' 5000000
     [AuthNew second_issuing_env, Cleanup second_issuing_env,
      Callback rejecting_env \<lparr>q_state = Some ''ffff'', q_code = Some ''code''\<rparr>]
     (logged_out_state\<lparr>reads := 1,
        pendingStates := [(''001fa233445566778899aabbccdeff'', 5000000)]\<rparr>) \<and>
   fold step
     [AuthNew second_issuing_env, Cleanup second_issuing_env,
      Callback rejecting_env \<lparr>q_state = Some ''ffff'', q_code = Some ''code''\<rparr>]
     (logged_out_state\<lparr>reads := 1,
        pendingStates := [(''001fa233445566778899aabbccdeff'', 5000000)]\<rparr>) =
     logged_out_state\<lparr>reads := 3,
        pendingStates := [(''001fa233445566778899aabbccdeff'', 5000000),
                          (''102132435465768798a9bacbdcedfe'', 5000001)]\<rparr> \<and>
   validateAndConsume (Some ''001fa233445566778899aabbccdeff'')
     [(''001fa233445566778899aabbccdeff'', 5000000), (''102132435465768798a9bacbdcedfe'', 5000001)]
     = Inr [(''102132435465768798a9bacbdcedfe'', 5000001)] \<and>
   oauth_callback rejecting_env \<lparr>q_state = Some ''001fa233445566778899aabbccdeff'', q_code = None\<rparr>
     (logged_out_state\<lparr>reads := 3,
        pendingStates := [(''001fa233445566778899aabbccdeff'', 5000000),
                          (''102132435465768798a9bacbdcedfe'', 5000001)]\<rparr>) =
     (Reply 400 (ErrorOnly ''Missing authorization code''),
      logged_out_state\<lparr>reads := 3,
        pendingStates := [(''102132435465768798a9bacbdcedfe'', 5000001)]\<rparr>) \<and>
   \<not> list_ex (issues ''001fa233445566778899aabbccdeff'')
     [AuthStatus second_issuing_env, Cleanup second_issuing_env] \<and>
   validateAndConsume (Some ''001fa233445566778899aabbccdeff'')
     (pendingStates (fold step [AuthStatus second_issuing_env, Cleanup second_issuing_env]
        (logged_out_state\<lparr>reads := 3,
           pendingStates := [(''102132435465768798a9bacbdcedfe'', 5000001)]\<rparr>)))
     = Inl InvalidState \<and>
   fst (oauth_callback granting_env
          \<lparr>q_state = Some ''001fa233445566778899aabbccdeff'', q_code = Some ''code''\<rparr>
          (fold step [AuthStatus second_issuing_env, Cleanup second_issuing_env]
             (logged_out_state\<lparr>reads := 3,
                pendingStates := [(''102132435465768798a9bacbdcedfe'', 5000001)]\<rparr>)))
     = Reply 403 (ErrorOnly ''Invalid state parameter'')"
proof -
  let ?S = "''001fa233445566778899aabbccdeff''"
  let ?S2 = "''102132435465768798a9bacbdcedfe''"
  let ?s0 = "logged_out_state\<lparr>reads := 1, pendingStates := [(?S, 5000000)]\<rparr>"
  let ?s1 = "logged_out_state\<lparr>reads := 3, pendingStates := [(?S, 5000000), (?S2, 5000001)]\<rparr>"
  let ?s2 = "logged_out_state\<lparr>reads := 3, pendingStates := [(?S2, 5000001)]\<rparr>"
  let ?evs = "[AuthNew second_issuing_env, Cleanup second_issuing_env,
      Callback rejecting_env \<lparr>q_state = Some ''ffff'', q_code = Some ''code''\<rparr>]"
  let ?later = "[AuthStatus second_issuing_env, Cleanup second_issuing_env]"
  let ?q = "\<lparr>q_state = Some ?S, q_code = None\<rparr>"
  have l: "length (randomBytes15 issuing_env) = 15" by (simp add: issuing_env_def)
  have d: "distinct (map fst (pendingStates logged_out_state))"
    by (simp add: logged_out_state_def)
  have c: "clock issuing_env (reads logged_out_state) = 5000000"
    by (simp add: issuing_env_def logged_out_state_def)
  have g: "generateAuthUrl issuing_env logged_out_state = ((AuthorizeURL ?S, ?S), ?s0)"
    by (simp add: generateAuthUrl_eq issued_value)
      (simp add: issuing_env_def logged_out_state_def Map_set_def)
  have a1: "step (AuthNew second_issuing_env) ?s0 =
      logged_out_state\<lparr>reads := 2, pendingStates := [(?S, 5000000), (?S2, 5000001)]\<rparr>"
    by (simp add: auth_new_def generateAuthUrl_eq second_issued_value)
      (simp add: second_issuing_env_def logged_out_state_def Map_set_def)
  have a2: "step (Cleanup second_issuing_env)
      (logged_out_state\<lparr>reads := 2, pendingStates := [(?S, 5000000), (?S2, 5000001)]\<rparr>) = ?s1"
    by (simp add: sweep_eq second_issuing_env_def logged_out_state_def)
  have a3: "step (Callback rejecting_env \<lparr>q_state = Some ''ffff'', q_code = Some ''code''\<rparr>) ?s1 = ?s1"
    by (simp add: callback_invalid_state Map_has_def logged_out_state_def)
  have u: "undisturbed ?S 5000000 ?evs ?s0"
    unfolding undisturbed.simps a1 a2 a3
    by (simp add: second_issued_value) (simp add: second_issuing_env_def logged_out_state_def)
  have f: "fold step ?evs ?s0 = ?s1"
    unfolding fold_simps a1 a2 a3 by simp
  have cb: "oauth_callback rejecting_env ?q ?s1 = (Reply 400 (ErrorOnly ''Missing authorization code''), ?s2)"
    by (simp add: callback_missing_code [where st = ?S] Map_has_def truthy_str_def Map_delete_def
        logged_out_state_def)
  have n: "\<not> list_ex (issues ?S) ?later" by (simp add: second_issued_value)
  note T = state_token_single_use
    [where E = issuing_env and \<sigma> = logged_out_state and url = "AuthorizeURL ?S" and st = ?S
       and ?\<sigma>0.0 = ?s0 and evs = ?evs and ?\<sigma>1.0 = ?s1 and query = ?q and ?E1.0 = rejecting_env
       and reply = "Reply 400 (ErrorOnly ''Missing authorization code'')" and ?\<sigma>2.0 = ?s2
       and later = ?later and ?\<sigma>3.0 = "fold step ?later ?s2",
     OF l d g _ f [symmetric] _ cb n refl]
  have T': "validateAndConsume (Some ?S) (pendingStates ?s1) = Inr (Map_delete ?S (pendingStates ?s1)) \<and>
      validateAndConsume (Some ?S) (pendingStates (fold step ?later ?s2)) = Inl InvalidState \<and>
      fst (oauth_callback granting_env \<lparr>q_state = Some ?S, q_code = Some ''code''\<rparr>
             (fold step ?later ?s2)) = Reply 403 (ErrorOnly ''Invalid state parameter'')"
    using T u c by simp
  then have v: "validateAndConsume (Some ?S) [(?S, 5000000), (?S2, 5000001)] = Inr [(?S2, 5000001)]"
    by (simp add: Map_delete_def)
  from l d g u f v cb n T' show ?thesis by blast
qed

section \<open>A 401 from the messaging API\<close>

text \<open>
  On \<^verbatim>\<open>POST /api/send-sms\<close> a 401 from the messaging API clears the token storage before
  the reply, whatever its expiry says.
\<close>

lemma send_sms_401_clears:
  assumes "b_from req = Some from" "b_to req = Some to" "b_message req = Some message"
    and "from \<noteq> []" "to \<noteq> []" "message \<noteq> []"
    and "phoneRegex_test from" "phoneRegex_test to"
    and "getValidAccessToken E \<sigma> = (Some tok, \<sigma>1)" "tok \<noteq> []"
    and "axios_request E \<lparr>bearer = Some tok, ownerPhoneNumber = from,
           contactPhoneNumbers = [to], body = message\<rparr> = Rejected (Some 401) details"
  shows "tokenStorage (snd (send_sms E req \<sigma>)) =
           \<lparr>accessToken = None, refreshToken = None, expiresAt = None\<rparr> \<and>
         fst (send_sms E req \<sigma>) =
           Reply 401 (ErrorAuthUrl ''Authentication expired. Please complete OAuth flow again.''
             (AuthorizeURL (toString_hex (randomBytes15 E))))"
  using assms
  by (simp add: send_sms_def Let_def truthy_str_def generateAuthUrl_eq call_def clearTokens_eq)

text \<open>
  The callback sends its message with the token it has just stored, and answers every
  failure of that call alike: the storage keeps what \<^verbatim>\<open>setTokens\<close> wrote.
\<close>

lemma oauth_callback_sms_rejected:
  assumes "st \<noteq> []" "Map_has (pendingStates \<sigma>) st" "code \<noteq> []"
    and "getToken E (CodeGrant code) = Inr r"
    and "axios_request E
           \<lparr>bearer = access_token r,
            ownerPhoneNumber = or_default (OWNER_PHONE_NUMBER E) ''+15625791776'',
            contactPhoneNumbers = [or_default (CONTACT_PHONE_NUMBER E) ''+17143059601''],
            body = or_default (SMS_MESSAGE E)
              ''Congratulations! You have successfully completed the tutorial!''\<rparr>
         = Rejected status details"
  shows "fst (oauth_callback E \<lparr>q_state = Some st, q_code = Some code\<rparr> \<sigma>) =
           Reply 500 (ErrorDetails ''Failed to send SMS'' details) \<and>
         tokenStorage (snd (oauth_callback E \<lparr>q_state = Some st, q_code = Some code\<rparr> \<sigma>)) =
           setTokens r (clock E (reads \<sigma>)) (tokenStorage \<sigma>)"
  using assms
  by (simp add: oauth_callback_def validate_present call_def Date_now_def Let_def)

text \<open>
  C1. The claim asks that a 401 from the messaging API clear the token storage on every
  path that sends with a stored token. On the callback path it does not: with an
  outstanding state, a code the provider exchanges for a one-hour token and a messaging
  API that answers 401, the reply is 500 "Failed to send SMS" and the storage still holds
  the token, valid by its own clock.
\<close>

theorem callback_401_keeps_tokens:
  "axios_request granting_env
     \<lparr>bearer = Some ''N'', ownerPhoneNumber = ''+15625791776'',
      contactPhoneNumbers = [''+17143059601''],
      body = ''Congratulations! You have successfully completed the tutorial!''\<rparr>
     = Rejected (Some 401) ''Unauthorized'' \<and>
   fst (oauth_callback granting_env \<lparr>q_state = Some ''abc123'', q_code = Some ''code''\<rparr> awaiting_callback)
     = Reply 500 (ErrorDetails ''Failed to send SMS'' ''Unauthorized'') \<and>
   tokenStorage (snd (oauth_callback granting_env \<lparr>q_state = Some ''abc123'', q_code = Some ''code''\<rparr>
       awaiting_callback))
     = \<lparr>accessToken = Some ''N'', refreshToken = Some ''R2'', expiresAt = Some 8540000\<rparr> \<and>
   isTokenValid (tokenStorage (snd (oauth_callback granting_env
       \<lparr>q_state = Some ''abc123'', q_code = Some ''code''\<rparr> awaiting_callback))) 5000001"
  by (simp add: oauth_callback_def validateAndConsume_def Map_has_def Map_delete_def
      awaiting_callback_def granting_env_def call_def Date_now_def setTokens_def or_default_def
      initial_tokenStorage_def isTokenValid_def truthy_str_def truthy_num_def)

end
